theory Spec2Isabelle
  imports Complex_Main "HOL-Library.Word"
begin

unbundle bit_operations_syntax

section \<open>Python values used by the insights engine\<close>

text \<open>
  The engine (\<^verbatim>\<open>services/insights_engine.py\<close>) computes with Python floats. They are
  modelled as HOL reals: every arithmetic operation is the exact one, and a comparison
  such as \<^verbatim>\<open>denominator == 0\<close> is an exact comparison. Python integers are \<open>int\<close>,
  lengths are \<open>nat\<close>. Operations that raise in Python return a value of
  \<open>py_error + 'a\<close>, with \<open>Inl\<close> for the exception.
\<close>

datatype py_error =
  StatisticsError | ZeroDivisionError | ComplexResult | KeyError | ValueError | IndexError
  | CSVLoadingError

text \<open>\<^verbatim>\<open>a / b\<close> on numbers raises \<^verbatim>\<open>ZeroDivisionError\<close> when \<open>b\<close> is zero.\<close>

definition py_truediv :: "real \<Rightarrow> real \<Rightarrow> py_error + real" where
  "py_truediv a b = (if b = 0 then Inl ZeroDivisionError else Inr (a / b))"

text \<open>\<^verbatim>\<open>statistics.mean(data)\<close> raises \<^verbatim>\<open>StatisticsError\<close> on empty data.\<close>

definition mean :: "real list \<Rightarrow> py_error + real" where
  "mean xs = (if xs = [] then Inl StatisticsError
              else Inr (sum_list xs / real (length xs)))"

text \<open>
  \<^verbatim>\<open>round(x)\<close> rounds to the nearest integer and a tie to the even neighbour;
  \<^verbatim>\<open>round(x, 3)\<close> does so at the third decimal.
\<close>

definition py_round :: "real \<Rightarrow> int" where
  "py_round x =
     (let f = \<lfloor>x\<rfloor>; d = x - of_int f
      in if d < 1 / 2 then f
         else if 1 / 2 < d then f + 1
         else if even f then f else f + 1)"

definition round3 :: "real \<Rightarrow> real" where
  "round3 x = of_int (py_round (x * 1000)) / 1000"

section \<open>Records (\<^verbatim>\<open>models/csv_models.py\<close>)\<close>

datatype IndustryEnum =
  HEALTHCARE | FINANCE | MANUFACTURING | TECHNOLOGY
  | RETAIL | EDUCATION | ENERGY | TRANSPORTATION

text \<open>\<^verbatim>\<open>record.industry.value\<close>: the string of an enum member.\<close>

fun industry_value :: "IndustryEnum \<Rightarrow> string" where
  "industry_value HEALTHCARE = ''Healthcare''"
| "industry_value FINANCE = ''Finance''"
| "industry_value MANUFACTURING = ''Manufacturing''"
| "industry_value TECHNOLOGY = ''Technology''"
| "industry_value RETAIL = ''Retail''"
| "industry_value EDUCATION = ''Education''"
| "industry_value ENERGY = ''Energy''"
| "industry_value TRANSPORTATION = ''Transportation''"

text \<open>
  Both record classes have an \<open>industry\<close> and a \<open>year\<close>; the filter reads only those, so
  it is stated on the common part and applies to either extension.
\<close>

record keyed_record =
  industry :: IndustryEnum
  year :: int

record GenAIAdoptionRecord = keyed_record +
  adoption_rate :: real
  use_cases_count :: int
  investment_millions :: real


section \<open>Confidence score (\<^verbatim>\<open>_calculate_confidence\<close>)\<close>


section \<open>Composite usage score\<close>


section \<open>Filter engine (\<^verbatim>\<open>_apply_filters\<close>)\<close>

text \<open>
  An optional list argument is \<open>None\<close> or \<open>Some ys\<close>. \<^verbatim>\<open>if years and ...\<close> tests its
  truth value: \<^verbatim>\<open>None\<close> and the empty list are both false. \<^verbatim>\<open>x in years\<close> is only
  evaluated behind that test.
\<close>

definition truthy :: "'a list option \<Rightarrow> bool" where
  "truthy xs = (case xs of None \<Rightarrow> False | Some ys \<Rightarrow> ys \<noteq> [])"

definition py_in :: "'a \<Rightarrow> 'a list option \<Rightarrow> bool" where
  "py_in x xs = (case xs of None \<Rightarrow> False | Some ys \<Rightarrow> x \<in> set ys)"

text \<open>The loop over \<^verbatim>\<open>records\<close>, with \<^verbatim>\<open>filtered_records\<close> as the accumulator.\<close>

fun apply_filters_loop ::
  "'a keyed_record_scheme list \<Rightarrow> int list option \<Rightarrow> string list option
     \<Rightarrow> 'a keyed_record_scheme list \<Rightarrow> 'a keyed_record_scheme list" where
  "apply_filters_loop [] years industries filtered_records = filtered_records"
| "apply_filters_loop (record # records) years industries filtered_records =
     (if truthy years \<and> \<not> py_in (year record) years
        then apply_filters_loop records years industries filtered_records
      else if truthy industries \<and> \<not> py_in (industry_value (industry record)) industries
        then apply_filters_loop records years industries filtered_records
      else apply_filters_loop records years industries (filtered_records @ [record]))"

definition apply_filters ::
  "'a keyed_record_scheme list \<Rightarrow> int list option \<Rightarrow> string list option
     \<Rightarrow> 'a keyed_record_scheme list" where
  "apply_filters records years industries = apply_filters_loop records years industries []"

text \<open>
  The admissibility predicate in the words of the specification: the year is in the given
  list or no list was given, and the same for the industry.
\<close>

definition admissible_spec ::
  "int list option \<Rightarrow> string list option \<Rightarrow> 'a keyed_record_scheme \<Rightarrow> bool" where
  "admissible_spec years industries r =
     ((years = None \<or> py_in (year r) years)
      \<and> (industries = None \<or> py_in (industry_value (industry r)) industries))"

text \<open>The predicate the loop implements: an empty list counts as no list.\<close>

definition admissible ::
  "int list option \<Rightarrow> string list option \<Rightarrow> 'a keyed_record_scheme \<Rightarrow> bool" where
  "admissible years industries r =
     ((years = None \<or> years = Some [] \<or> py_in (year r) years)
      \<and> (industries = None \<or> industries = Some []
           \<or> py_in (industry_value (industry r)) industries))"

section \<open>Composite usage score, as specified\<close>



section \<open>Pearson correlation (\<^verbatim>\<open>_calculate_pearson_correlation\<close>)\<close>

text \<open>Sequencing of fallible steps: the first exception ends the computation.\<close>

definition bind_err :: "'e + 'a \<Rightarrow> ('a \<Rightarrow> 'e + 'b) \<Rightarrow> 'e + 'b" where
  "bind_err m f = (case m of Inl e \<Rightarrow> Inl e | Inr v \<Rightarrow> f v)"

text \<open>
  \<^verbatim>\<open>x ** 0.5\<close>: the square root of a float that is not negative. For a negative base Python
  answers with a complex number, which none of the later comparisons accepts; the model
  stops there with \<open>ComplexResult\<close>.
\<close>

definition py_pow_half :: "real \<Rightarrow> py_error + real" where
  "py_pow_half x = (if x < 0 then Inl ComplexResult else Inr (sqrt x))"

text \<open>
  The function returns the triple (correlation rounded to 3 decimals, p-value, n). The
  thresholds \<open>0.999\<close> and the \<open>t\<close> statistic use the correlation before rounding.
\<close>

definition calculate_pearson_correlation ::
  "real list \<Rightarrow> real list \<Rightarrow> py_error + (real \<times> real \<times> nat)" where
  "calculate_pearson_correlation x_values y_values =
     (if length x_values \<noteq> length y_values \<or> length x_values < 2 then Inr (0, 1, 0)
      else
        let n = length x_values in
        bind_err (mean x_values) (\<lambda>mean_x.
        bind_err (mean y_values) (\<lambda>mean_y.
          let numerator = sum_list (map (\<lambda>(x, y). (x - mean_x) * (y - mean_y))
                                        (zip x_values y_values));
              sum_sq_x = sum_list (map (\<lambda>x. (x - mean_x)\<^sup>2) x_values);
              sum_sq_y = sum_list (map (\<lambda>y. (y - mean_y)\<^sup>2) y_values)
          in
          bind_err (py_pow_half (sum_sq_x * sum_sq_y)) (\<lambda>denominator.
            if denominator = 0 then Inr (0, 1, n)
            else
              bind_err (py_truediv numerator denominator) (\<lambda>correlation.
                if \<bar>correlation\<bar> \<ge> 999 / 1000
                  then Inr (round3 correlation, 1 / 1000, n)
                else
                  bind_err (py_truediv (of_int (int n - 2)) (1 - correlation\<^sup>2)) (\<lambda>q.
                  bind_err (py_pow_half q) (\<lambda>root.
                    let t_stat = \<bar>correlation\<bar> * root;
                        p_value = (if t_stat > 2576 / 1000 then 1 / 100
                                   else if t_stat > 196 / 100 then 5 / 100
                                   else if t_stat > 1645 / 1000 then 10 / 100
                                   else 20 / 100)
                    in Inr (round3 correlation, p_value, n))))))))"


definition p_value :: "real list \<Rightarrow> real list \<Rightarrow> py_error + real" where
  "p_value x y = bind_err (calculate_pearson_correlation x y) (\<lambda>(r, p, n). Inr p)"

section \<open>The statistics in the words of the specification\<close>

text \<open>
  The standard formula \<open>\<Sum>(x - mean x)(y - mean y) / sqrt(\<Sum>(x - mean x)\<^sup>2 \<Sum>(y - mean y)\<^sup>2)\<close>,
  and a sample of zero variance: all its values are equal.
\<close>

definition sample_mean :: "real list \<Rightarrow> real" where
  "sample_mean xs = sum_list xs / real (length xs)"





text \<open>
  The approximate two-tailed significance \<open>approx_p(r, n)\<close> of the specification: 1 below 3
  points, \<open>0.001\<close> from \<open>|r| = 0.999\<close> on, and otherwise the four buckets of
  \<open>t = |r| sqrt((n - 2) / (1 - r\<^sup>2))\<close>.
\<close>

definition approx_p_spec :: "real \<Rightarrow> nat \<Rightarrow> real" where
  "approx_p_spec r n =
     (if n < 3 then 1
      else if \<bar>r\<bar> \<ge> 999 / 1000 then 1 / 1000
      else let t = \<bar>r\<bar> * sqrt ((real n - 2) / (1 - r\<^sup>2))
           in if t > 2576 / 1000 then 1 / 100
              else if t > 196 / 100 then 5 / 100
              else if t > 1645 / 1000 then 10 / 100
              else 20 / 100)"


section \<open>Python dictionaries\<close>

text \<open>
  A \<^verbatim>\<open>dict\<close> keeps its keys in insertion order, and \<^verbatim>\<open>max\<close> and \<^verbatim>\<open>min\<close> over a dictionary
  depend on that order, so a dictionary is an association list with distinct keys.
  \<open>dict_set\<close> is \<^verbatim>\<open>d[k] = v\<close>: it overwrites in place or appends a new key.
  \<open>dict_lookup\<close> is \<^verbatim>\<open>d[k]\<close> on a plain dictionary, which raises \<^verbatim>\<open>KeyError\<close> for a missing
  key.
\<close>

type_synonym ('k, 'v) py_dict = "('k \<times> 'v) list"

fun dict_set :: "'k \<Rightarrow> 'v \<Rightarrow> ('k, 'v) py_dict \<Rightarrow> ('k, 'v) py_dict" where
  "dict_set k v [] = [(k, v)]"
| "dict_set k v ((k', v') # d) =
     (if k' = k then (k', v) # d else (k', v') # dict_set k v d)"

definition dict_lookup :: "('k, 'v) py_dict \<Rightarrow> 'k \<Rightarrow> py_error + 'v" where
  "dict_lookup d k = (case map_of d k of None \<Rightarrow> Inl KeyError | Some v \<Rightarrow> Inr v)"

text \<open>
  \<^verbatim>\<open>defaultdict(list)\<close>: reading a missing key gives the empty list, and
  \<^verbatim>\<open>d[k].append(v)\<close> creates the key at the end when it is missing.
\<close>

definition dd_get :: "('k, 'v list) py_dict \<Rightarrow> 'k \<Rightarrow> 'v list" where
  "dd_get d k = (case map_of d k of None \<Rightarrow> [] | Some vs \<Rightarrow> vs)"

definition dd_append :: "'k \<Rightarrow> 'v \<Rightarrow> ('k, 'v list) py_dict \<Rightarrow> ('k, 'v list) py_dict" where
  "dd_append k v d = dict_set k (dd_get d k @ [v]) d"




fun max_loop :: "('k \<times> real) list \<Rightarrow> 'k \<times> real \<Rightarrow> 'k \<times> real" where
  "max_loop [] best = best"
| "max_loop ((k, v) # d) best = max_loop d (if v > snd best then (k, v) else best)"

definition py_max_key :: "('k, real) py_dict \<Rightarrow> py_error + 'k" where
  "py_max_key d = (case d of [] \<Rightarrow> Inl ValueError | kv # rest \<Rightarrow> Inr (fst (max_loop rest kv)))"

section \<open>Insight objects and the library functions\<close>

text \<open>
  A time is a number of microseconds. \<^verbatim>\<open>statistical_data\<close> maps names to numbers and
  strings.
\<close>

type_synonym time = int

datatype stat_value = PyFloat real | PyInt int | PyStr string

record InsightObject =
  insight_id :: string
  title :: string
  short_text :: string
  details :: string
  confidence :: real
  data_slice_url :: string
  computed_at :: string
  category :: string
  statistical_data :: "(string, stat_value) py_dict"

text \<open>
  What the engine takes from the Python library and its environment, as parameters:
  \<open>utcnow k\<close> is the result of the \<open>k\<close>-th call of \<^verbatim>\<open>datetime.utcnow()\<close>, \<open>strftime\<close> is
  \<^verbatim>\<open>.strftime('%Y%m%d_%H%M%S')\<close>, \<open>isoformat\<close> is \<^verbatim>\<open>.isoformat()\<close>, the three \<open>format\<close>
  functions are the format specifications \<^verbatim>\<open>.1%\<close>, \<^verbatim>\<open>.1f\<close> and \<^verbatim>\<open>.3f\<close>, \<open>str_float\<close> is
  the default formatting of a float in an f-string and \<open>str_title\<close> is \<^verbatim>\<open>str.title\<close>.
  Each generator takes the number of clock readings made so far and returns the new
  number with its insights.
\<close>

record pylib =
  utcnow :: "nat \<Rightarrow> time"
  strftime :: "time \<Rightarrow> string"
  isoformat :: "time \<Rightarrow> string"
  format_percent1 :: "real \<Rightarrow> string"
  format_fixed1 :: "real \<Rightarrow> string"
  format_fixed3 :: "real \<Rightarrow> string"
  str_float :: "real \<Rightarrow> string"
  str_title :: "string \<Rightarrow> string"

section \<open>Drill-down URL (\<^verbatim>\<open>_generate_data_slice_url\<close>)\<close>

text \<open>\<^verbatim>\<open>sep.join(parts)\<close>, and \<^verbatim>\<open>filters.get(k)\<close> used as a condition.\<close>

fun str_join :: "string \<Rightarrow> string list \<Rightarrow> string" where
  "str_join sep [] = []"
| "str_join sep [s] = s"
| "str_join sep (s # t # ss) = s @ sep @ str_join sep (t # ss)"

definition dict_get_truthy :: "(string, string) py_dict \<Rightarrow> string \<Rightarrow> bool" where
  "dict_get_truthy d k = (case map_of d k of None \<Rightarrow> False | Some v \<Rightarrow> v \<noteq> [])"

definition generate_data_slice_url :: "(string, string) py_dict \<Rightarrow> py_error + string" where
  "generate_data_slice_url filters =
     bind_err (if dict_get_truthy filters ''industry''
               then bind_err (dict_lookup filters ''industry'') (\<lambda>v. Inr [''industry='' @ v])
               else Inr []) (\<lambda>p1.
     bind_err (if dict_get_truthy filters ''year''
               then bind_err (dict_lookup filters ''year'') (\<lambda>v. Inr (p1 @ [''year='' @ v]))
               else Inr p1) (\<lambda>p2.
     bind_err (if dict_get_truthy filters ''metric''
               then bind_err (dict_lookup filters ''metric'') (\<lambda>v. Inr (p2 @ [''metric='' @ v]))
               else Inr p2) (\<lambda>params.
       let query_string = str_join ''&'' params
       in Inr (if query_string \<noteq> [] then ''/api/data/slice?'' @ query_string
               else ''/api/data/slice''))))"

section \<open>Investment-efficiency generator (\<^verbatim>\<open>_generate_investment_insights\<close>)\<close>




text \<open>The constructor call \<^verbatim>\<open>GenAIAdoptionRecord(industry, year, adoption_rate, ...)\<close>.\<close>

definition genai :: "IndustryEnum \<Rightarrow> int \<Rightarrow> real \<Rightarrow> int \<Rightarrow> real \<Rightarrow> GenAIAdoptionRecord" where
  "genai i y a u v =
     \<lparr>industry = i, year = y, adoption_rate = a, use_cases_count = u, investment_millions = v\<rparr>"




text \<open>Every value list of a grouping dictionary is non-empty.\<close>

definition nonempty_groups :: "('k, 'v list) py_dict \<Rightarrow> bool" where
  "nonempty_groups d = (\<forall>k\<in>fst ` set d. dd_get d k \<noteq> [])"


section \<open>Growth-trend generator (\<^verbatim>\<open>_generate_growth_insights\<close>)\<close>

text \<open>\<^verbatim>\<open>xs[i]\<close> for an index that is not negative: \<^verbatim>\<open>IndexError\<close> past the end.\<close>

definition py_index :: "'a list \<Rightarrow> nat \<Rightarrow> py_error + 'a" where
  "py_index xs i = (if i < length xs then Inr (xs ! i) else Inl IndexError)"

text \<open>
  \<^verbatim>\<open>industry_year_data[k][j].append(v)\<close> on
  \<^verbatim>\<open>defaultdict(lambda: defaultdict(list))\<close>: the inner dictionary is created when the
  outer key is new.
\<close>

definition dd2_append ::
  "'k \<Rightarrow> 'j \<Rightarrow> 'v \<Rightarrow> ('k, ('j, 'v list) py_dict) py_dict \<Rightarrow> ('k, ('j, 'v list) py_dict) py_dict" where
  "dd2_append k j v d = dict_set k (dd_append j v (dd_get d k)) d"

text \<open>
  The grouping loop. It filters by itself, the industry test before the year test, with
  the same truth-value tests as the filter engine.
\<close>

fun industry_year_data_loop ::
  "GenAIAdoptionRecord list \<Rightarrow> int list option \<Rightarrow> string list option
     \<Rightarrow> (string, (int, real list) py_dict) py_dict \<Rightarrow> (string, (int, real list) py_dict) py_dict" where
  "industry_year_data_loop [] years industries industry_year_data = industry_year_data"
| "industry_year_data_loop (record # records) years industries industry_year_data =
     (if truthy industries \<and> \<not> py_in (industry_value (industry record)) industries
        then industry_year_data_loop records years industries industry_year_data
      else if truthy years \<and> \<not> py_in (year record) years
        then industry_year_data_loop records years industries industry_year_data
      else industry_year_data_loop records years industries
             (dd2_append (industry_value (industry record)) (year record) (adoption_rate record)
                industry_year_data))"

text \<open>
  The loop \<^verbatim>\<open>for i in range(1, len(years_sorted))\<close>, over the list of its indices. The
  division stands behind the test \<^verbatim>\<open>prev_avg > 0\<close>.
\<close>

fun growth_rates_loop ::
  "(int, real list) py_dict \<Rightarrow> int list \<Rightarrow> nat list \<Rightarrow> real list \<Rightarrow> py_error + real list" where
  "growth_rates_loop year_data years_sorted [] growth_rates = Inr growth_rates"
| "growth_rates_loop year_data years_sorted (i # rest) growth_rates =
     bind_err (py_index years_sorted (i - 1)) (\<lambda>prev_year.
     bind_err (py_index years_sorted i) (\<lambda>curr_year.
     bind_err (mean (dd_get year_data prev_year)) (\<lambda>prev_avg.
     bind_err (mean (dd_get year_data curr_year)) (\<lambda>curr_avg.
       if prev_avg > 0
       then bind_err (py_truediv (curr_avg - prev_avg) prev_avg) (\<lambda>growth_rate.
              growth_rates_loop year_data years_sorted rest (growth_rates @ [growth_rate]))
       else growth_rates_loop year_data years_sorted rest growth_rates))))"

text \<open>
  The loop over \<^verbatim>\<open>industry_year_data.items()\<close>; \<^verbatim>\<open>sorted\<close> is the ascending sort of the
  years.
\<close>

fun industry_growth_rates_loop ::
  "(string \<times> (int, real list) py_dict) list \<Rightarrow> (string, real) py_dict
     \<Rightarrow> py_error + (string, real) py_dict" where
  "industry_growth_rates_loop [] industry_growth_rates = Inr industry_growth_rates"
| "industry_growth_rates_loop ((industry_name, year_data) # rest) industry_growth_rates =
     (let years_sorted = sort (map fst year_data) in
      if length years_sorted < 2
      then industry_growth_rates_loop rest industry_growth_rates
      else
        bind_err (growth_rates_loop year_data years_sorted [1..<length years_sorted] [])
          (\<lambda>growth_rates.
             if growth_rates \<noteq> []
             then bind_err (mean growth_rates) (\<lambda>avg_growth.
                    industry_growth_rates_loop rest
                      (dict_set industry_name avg_growth industry_growth_rates))
             else industry_growth_rates_loop rest industry_growth_rates))"

definition generate_growth_insights ::
  "pylib \<Rightarrow> nat \<Rightarrow> GenAIAdoptionRecord list \<Rightarrow> int list option \<Rightarrow> string list option
     \<Rightarrow> py_error + (InsightObject list \<times> nat)" where
  "generate_growth_insights lib tick all_records years industries =
     (if all_records = [] then Inr ([], tick)
      else
        let industry_year_data = industry_year_data_loop all_records years industries [] in
        bind_err (industry_growth_rates_loop industry_year_data []) (\<lambda>industry_growth_rates.
          if industry_growth_rates \<noteq> [] then
            bind_err (py_max_key industry_growth_rates) (\<lambda>fastest_industry.
            bind_err (dict_lookup industry_growth_rates fastest_industry) (\<lambda>fastest_rate.
              if fastest_rate > 1 / 10 then
                let sample_size = length (dd_get industry_year_data fastest_industry);
                    confidence = min (9 / 10) (real sample_size / 5)
                in
                bind_err (generate_data_slice_url
                            [(''industry'', fastest_industry), (''metric'', ''growth'')]) (\<lambda>url.
                  Inr ([\<lparr>insight_id = ''growth_leader_'' @ strftime lib (utcnow lib tick),
                          title = ''Fastest Growing Industry Identified'',
                          short_text = fastest_industry @ '' shows ''
                            @ format_percent1 lib fastest_rate @ '' average growth rate'',
                          details = fastest_industry
                            @ '' demonstrates the highest growth trajectory with an average ''
                            @ ''year-over-year growth rate of '' @ format_percent1 lib fastest_rate
                            @ ''. This accelerated adoption ''
                            @ ''indicates strong market momentum and suggests significant investment opportunities ''
                            @ ''in GenAI technologies within this sector.'',
                          confidence = confidence,
                          data_slice_url = url,
                          computed_at = isoformat lib (utcnow lib (tick + 1)),
                          category = ''growth_trends'',
                          statistical_data =
                            [(''growth_rate'', PyFloat fastest_rate),
                             (''sample_size'', PyInt (int sample_size)),
                             (''years_analyzed'',
                              PyInt (int (length (dd_get industry_year_data fastest_industry))))]\<rparr>],
                       tick + 2))
              else Inr ([], tick)))
          else Inr ([], tick)))"

section \<open>The growth trend in the words of the specification\<close>

text \<open>
  The records the generator groups, the distinct years of an industry in ascending order,
  the mean adoption rate of an industry in a year, the year-over-year growth of that mean
  for each pair of consecutive years whose earlier mean is positive, and the average of
  these rates for an industry with at least 2 years of data and at least one rate.
\<close>

definition growth_scope ::
  "GenAIAdoptionRecord list \<Rightarrow> int list option \<Rightarrow> string list option
     \<Rightarrow> GenAIAdoptionRecord list" where
  "growth_scope all_records years industries = filter (admissible years industries) all_records"

definition industry_records :: "GenAIAdoptionRecord list \<Rightarrow> string \<Rightarrow> GenAIAdoptionRecord list" where
  "industry_records recs ind = filter (\<lambda>r. industry_value (industry r) = ind) recs"

definition industry_years :: "GenAIAdoptionRecord list \<Rightarrow> string \<Rightarrow> int list" where
  "industry_years recs ind = sort (remdups (map year (industry_records recs ind)))"

definition year_mean :: "GenAIAdoptionRecord list \<Rightarrow> string \<Rightarrow> int \<Rightarrow> real" where
  "year_mean recs ind y =
     sample_mean (map adoption_rate (filter (\<lambda>r. year r = y) (industry_records recs ind)))"

definition growth_rates_of :: "(int \<Rightarrow> real) \<Rightarrow> (int \<times> int) list \<Rightarrow> real list" where
  "growth_rates_of m pairs =
     map (\<lambda>(p, c). (m c - m p) / m p) (filter (\<lambda>(p, c). 0 < m p) pairs)"

definition yoy_growth_rates :: "GenAIAdoptionRecord list \<Rightarrow> string \<Rightarrow> real list" where
  "yoy_growth_rates recs ind =
     (let ys = industry_years recs ind
      in growth_rates_of (year_mean recs ind) (zip ys (tl ys)))"

definition avg_growth :: "GenAIAdoptionRecord list \<Rightarrow> string \<Rightarrow> real option" where
  "avg_growth recs ind =
     (if 2 \<le> length (industry_years recs ind) \<and> yoy_growth_rates recs ind \<noteq> []
      then Some (sample_mean (yoy_growth_rates recs ind)) else None)"

text \<open>
  What one entry of \<^verbatim>\<open>industry_year_data\<close> contributes to
  \<^verbatim>\<open>industry_growth_rates\<close>, and the invariant of the nested dictionary: the inner
  dictionaries have distinct keys and no empty list.
\<close>

definition entry_growth :: "string \<times> (int, real list) py_dict \<Rightarrow> (string \<times> real) option" where
  "entry_growth e =
     (let ys = sort (map fst (snd e));
          rates = growth_rates_of (\<lambda>y. sample_mean (dd_get (snd e) y)) (zip ys (tl ys))
      in if rates = [] then None else Some (fst e, sample_mean rates))"

definition wf_inner :: "('k, ('j, 'v list) py_dict) py_dict \<Rightarrow> bool" where
  "wf_inner d = (\<forall>k. distinct (map fst (dd_get d k)) \<and> nonempty_groups (dd_get d k))"


section \<open>Rounding\<close>









section \<open>Confidence score\<close>



section \<open>Filter engine\<close>

lemma truthy_iff: "truthy xs \<longleftrightarrow> xs \<noteq> None \<and> xs \<noteq> Some []"
  by (simp add: truthy_def split: option.splits)

lemma apply_filters_loop_filter:
  "apply_filters_loop records years industries acc
     = acc @ filter (admissible years industries) records"
  by (induction records arbitrary: acc) (auto simp: admissible_def truthy_iff)

text \<open>
  Claim C2, as amended. The filter returns exactly the subsequence, in the original order,
  of the records whose year is in the given year list, or for which no year list or an
  empty one was given, and likewise for the industry. It is a total function: no input
  raises.
\<close>

theorem apply_filters_subsequence:
  "apply_filters records years industries = filter (admissible years industries) records"
  by (simp add: apply_filters_def apply_filters_loop_filter)

text \<open>
  Claim C2 as stated fails for a year list that is given and empty: no year is in it, yet
  the loop keeps every record.
\<close>

theorem apply_filters_empty_list_counterexample:
  "apply_filters [\<lparr>industry = HEALTHCARE, year = 2023\<rparr>] (Some []) None
     \<noteq> filter (admissible_spec (Some []) None) [\<lparr>industry = HEALTHCARE, year = 2023\<rparr>]"
  by (simp add: apply_filters_def admissible_spec_def truthy_def py_in_def)

section \<open>Composite usage score\<close>




section \<open>Pearson correlation\<close>

lemma bind_err_Inr [simp]: "bind_err (Inr v) f = f v"
  by (simp add: bind_err_def)

lemma bind_err_Inl [simp]: "bind_err (Inl e) f = Inl e"
  by (simp add: bind_err_def)

lemma mean_nonempty: "xs \<noteq> [] \<Longrightarrow> mean xs = Inr (sample_mean xs)"
  by (simp add: mean_def sample_mean_def)
























text \<open>
  With two points of nonzero variance the correlation is 1 or -1 and the function returns
  the p-value \<open>0.001\<close>; \<open>approx_p\<close> of the specification is 1 below 3 points. The only caller
  asks for at least 3 matched pairs.
\<close>

lemma pearson_two_points:
  "p_value [0, 1] [0, 1] = Inr (1 / 1000) \<and> approx_p_spec 1 (length [0, 1 :: real]) = 1"
  by (simp add: p_value_def calculate_pearson_correlation_def mean_def py_pow_half_def
      py_truediv_def approx_p_spec_def Let_def power2_eq_square real_sqrt_divide)


section \<open>Dictionaries\<close>

lemma map_fst_dict_set:
  "map fst (dict_set k v d) = (if k \<in> fst ` set d then map fst d else map fst d @ [k])"
  by (induction d) (force simp: image_iff)+

lemma map_of_dict_set: "map_of (dict_set k v d) = (map_of d)(k \<mapsto> v)"
  by (induction d) (auto simp: fun_eq_iff)

lemma distinct_dict_set: "distinct (map fst d) \<Longrightarrow> distinct (map fst (dict_set k v d))"
  by (simp add: map_fst_dict_set)

lemma dd_get_dd_append:
  "dd_get (dd_append k v d) k' = (if k' = k then dd_get d k @ [v] else dd_get d k')"
  by (simp add: dd_get_def dd_append_def map_of_dict_set)

lemma keys_dd_append: "fst ` set (dd_append k v d) = insert k (fst ` set d)"
proof -
  have "set (map fst (dd_append k v d)) = insert k (fst ` set d)"
    unfolding dd_append_def map_fst_dict_set by auto
  then show ?thesis by simp
qed

lemma distinct_dd_append: "distinct (map fst d) \<Longrightarrow> distinct (map fst (dd_append k v d))"
  by (simp add: dd_append_def distinct_dict_set)

lemma dd_get_entry: "distinct (map fst d) \<Longrightarrow> (k, vs) \<in> set d \<Longrightarrow> dd_get d k = vs"
  by (simp add: dd_get_def)


lemma dict_lookup_entry:
  "distinct (map fst d) \<Longrightarrow> (k, v) \<in> set d \<Longrightarrow> dict_lookup d k = Inr v"
  by (simp add: dict_lookup_def)

lemma nonempty_groups_dd_append:
  "nonempty_groups d \<Longrightarrow> nonempty_groups (dd_append k v d)"
  unfolding nonempty_groups_def keys_dd_append by (simp add: dd_get_dd_append)





lemma max_loop_mem: "max_loop d best \<in> set (best # d)"
proof (induction d arbitrary: best)
  case Nil
  then show ?case by simp
next
  case (Cons kv d)
  obtain k v where kv: "kv = (k, v)" by (cases kv)
  let ?b = "if v > snd best then (k, v) else best"
  have "max_loop d ?b \<in> set (?b # d)" by (rule Cons.IH)
  then show ?case by (auto simp: kv split: if_splits)
qed

lemma max_loop_ge: "p \<in> set (best # d) \<Longrightarrow> snd p \<le> snd (max_loop d best)"
proof (induction d arbitrary: best p)
  case Nil
  then show ?case by simp
next
  case (Cons kv d)
  obtain k v where kv: "kv = (k, v)" by (cases kv)
  let ?b = "if v > snd best then (k, v) else best"
  have ge: "snd ?b \<le> snd (max_loop d ?b)"
    using Cons.IH [where p = ?b and best = ?b] by simp
  from Cons.prems consider "p = best" | "p = kv" | "p \<in> set d" by auto
  then show ?case
  proof cases
    case 1
    with ge show ?thesis by (auto simp: kv split: if_splits)
  next
    case 2
    with ge show ?thesis by (auto simp: kv split: if_splits)
  next
    case 3
    then have "snd p \<le> snd (max_loop d ?b)" using Cons.IH [where p = p and best = ?b] by simp
    then show ?thesis by (simp add: kv)
  qed
qed

lemma py_max_key_eq:
  assumes "d \<noteq> []"
  shows "\<exists>k v. py_max_key d = Inr k \<and> (k, v) \<in> set d \<and> (\<forall>p\<in>set d. snd p \<le> v)"
proof -
  from assms obtain kv rest where d: "d = kv # rest" by (cases d) auto
  let ?r = "max_loop rest kv"
  have "py_max_key d = Inr (fst ?r)" by (simp add: py_max_key_def d)
  moreover have "(fst ?r, snd ?r) \<in> set d" using max_loop_mem [of rest kv] by (simp add: d)
  moreover have "\<forall>p\<in>set d. snd p \<le> snd ?r" using max_loop_ge [of _ kv rest] by (simp add: d)
  ultimately show ?thesis by blast
qed

section \<open>Investment-efficiency generator\<close>






lemma industry_value_nonempty: "industry_value i \<noteq> []"
  by (cases i) simp_all

lemma data_slice_url_industry_metric:
  "ind \<noteq> [] \<Longrightarrow> metric \<noteq> [] \<Longrightarrow>
     generate_data_slice_url [(''industry'', ind), (''metric'', metric)]
       = Inr (''/api/data/slice?industry='' @ ind @ ''&metric='' @ metric)"
  by (simp add: generate_data_slice_url_def dict_get_truthy_def dict_lookup_def)





section \<open>Growth-trend generator\<close>

lemma dd_get_dd2_append:
  "dd_get (dd2_append k j v d) k' = (if k' = k then dd_append j v (dd_get d k) else dd_get d k')"
  by (simp add: dd2_append_def dd_get_def map_of_dict_set)

lemma keys_dd2_append: "fst ` set (dd2_append k j v d) = insert k (fst ` set d)"
proof -
  have "set (map fst (dd2_append k j v d)) = insert k (fst ` set d)"
    unfolding dd2_append_def map_fst_dict_set by auto
  then show ?thesis by simp
qed

lemma distinct_dd2_append:
  "distinct (map fst d) \<Longrightarrow> distinct (map fst (dd2_append k j v d))"
  by (simp add: dd2_append_def distinct_dict_set)

lemma wf_inner_dd2_append: "wf_inner d \<Longrightarrow> wf_inner (dd2_append k j v d)"
  unfolding wf_inner_def
  by (simp add: dd_get_dd2_append distinct_dd_append nonempty_groups_dd_append)

lemma wf_inner_empty: "wf_inner []"
  by (simp add: wf_inner_def dd_get_def nonempty_groups_def)

lemma industry_year_data_loop_Cons:
  "industry_year_data_loop (r # rs) ys is d =
     (if admissible ys is r
      then industry_year_data_loop rs ys is
             (dd2_append (industry_value (industry r)) (year r) (adoption_rate r) d)
      else industry_year_data_loop rs ys is d)"
  by (auto simp: admissible_def truthy_iff)

lemma industry_year_data_loop_keys:
  "fst ` set (industry_year_data_loop rs ys is d)
     = fst ` set d \<union> (\<lambda>r. industry_value (industry r)) ` set (filter (admissible ys is) rs)"
proof (induction rs arbitrary: d)
  case Nil
  then show ?case by simp
next
  case (Cons r rs)
  show ?case
  proof (cases "admissible ys is r")
    case True
    then show ?thesis
      by (simp add: industry_year_data_loop_Cons Cons.IH keys_dd2_append
          del: industry_year_data_loop.simps(2))
  next
    case False
    then show ?thesis
      by (simp add: industry_year_data_loop_Cons Cons.IH industry_records_def
          del: industry_year_data_loop.simps(2))
  qed
qed

lemma industry_year_data_loop_distinct:
  "distinct (map fst d) \<Longrightarrow> distinct (map fst (industry_year_data_loop rs ys is d))"
  by (induction rs arbitrary: d)
     (simp_all add: industry_year_data_loop_Cons distinct_dd2_append
        del: industry_year_data_loop.simps(2))

lemma industry_year_data_loop_wf:
  "wf_inner d \<Longrightarrow> wf_inner (industry_year_data_loop rs ys is d)"
  by (induction rs arbitrary: d)
     (simp_all add: industry_year_data_loop_Cons wf_inner_dd2_append
        del: industry_year_data_loop.simps(2))

lemma industry_year_data_loop_years:
  "fst ` set (dd_get (industry_year_data_loop rs ys is d) ind)
     = fst ` set (dd_get d ind)
       \<union> year ` set (industry_records (filter (admissible ys is) rs) ind)"
proof (induction rs arbitrary: d)
  case Nil
  then show ?case by (simp add: industry_records_def)
next
  case (Cons r rs)
  show ?case
  proof (cases "admissible ys is r")
    case True
    then show ?thesis
      by (simp add: industry_year_data_loop_Cons Cons.IH dd_get_dd2_append keys_dd_append
          industry_records_def del: industry_year_data_loop.simps(2))
  next
    case False
    then show ?thesis
      by (simp add: industry_year_data_loop_Cons Cons.IH industry_records_def
          del: industry_year_data_loop.simps(2))
  qed
qed

lemma industry_year_data_loop_rates:
  "dd_get (dd_get (industry_year_data_loop rs ys is d) ind) y
     = dd_get (dd_get d ind) y
       @ map adoption_rate
           (filter (\<lambda>r. year r = y) (industry_records (filter (admissible ys is) rs) ind))"
proof (induction rs arbitrary: d)
  case Nil
  then show ?case by (simp add: industry_records_def)
next
  case (Cons r rs)
  show ?case
  proof (cases "admissible ys is r")
    case True
    then show ?thesis
      by (simp add: industry_year_data_loop_Cons Cons.IH dd_get_dd2_append dd_get_dd_append
          industry_records_def del: industry_year_data_loop.simps(2))
  next
    case False
    then show ?thesis
      by (simp add: industry_year_data_loop_Cons Cons.IH industry_records_def
          del: industry_year_data_loop.simps(2))
  qed
qed

lemma growth_rates_of_Cons:
  "growth_rates_of m ((p, c) # pairs) =
     (if 0 < m p then (m c - m p) / m p # growth_rates_of m pairs else growth_rates_of m pairs)"
  by (simp add: growth_rates_of_def)

lemma growth_rates_of_Nil: "growth_rates_of m [] = []"
  by (simp add: growth_rates_of_def)

lemma growth_rates_loop_eq:
  assumes "\<forall>i\<in>set is. 1 \<le> i \<and> i < length ys" and "\<forall>y\<in>set ys. dd_get yd y \<noteq> []"
  shows "growth_rates_loop yd ys is acc =
     Inr (acc @ growth_rates_of (\<lambda>y. sample_mean (dd_get yd y))
                  (map (\<lambda>i. (ys ! (i - 1), ys ! i)) is))"
  using assms(1)
proof (induction "is" arbitrary: acc)
  case Nil
  then show ?case by (simp add: growth_rates_of_Nil)
next
  case (Cons i rest)
  then have i: "1 \<le> i" "i < length ys" and rest: "\<forall>i\<in>set rest. 1 \<le> i \<and> i < length ys"
    by simp_all
  from i have p: "py_index ys (i - Suc 0) = Inr (ys ! (i - Suc 0))"
    and c: "py_index ys i = Inr (ys ! i)"
    by (simp_all add: py_index_def)
  from i assms(2) have "dd_get yd (ys ! (i - Suc 0)) \<noteq> []" and "dd_get yd (ys ! i) \<noteq> []"
    by simp_all
  then have mp: "mean (dd_get yd (ys ! (i - Suc 0)))
      = Inr (sample_mean (dd_get yd (ys ! (i - Suc 0))))"
    and mc: "mean (dd_get yd (ys ! i)) = Inr (sample_mean (dd_get yd (ys ! i)))"
    by (simp_all add: mean_nonempty)
  show ?case
    by (simp add: p c mp mc py_truediv_def Cons.IH [OF rest] growth_rates_of_Cons)
qed

lemma consecutive_nth: "map (\<lambda>i. (ys ! (i - 1), ys ! i)) [1..<length ys] = zip ys (tl ys)"
  by (rule nth_equalityI) (auto simp: nth_tl)

lemma dict_set_new: "k \<notin> fst ` set d \<Longrightarrow> dict_set k v d = d @ [(k, v)]"
  by (induction d) auto

lemma zip_tl_short: "length ys < 2 \<Longrightarrow> zip ys (tl ys) = []"
  by (cases ys) (auto simp: Suc_less_eq2 less_Suc_eq)

lemma industry_growth_rates_loop_eq:
  assumes "distinct (map fst entries)"
    and "fst ` set entries \<inter> fst ` set acc = {}"
    and "\<forall>e\<in>set entries. nonempty_groups (snd e)"
  shows "industry_growth_rates_loop entries acc = Inr (acc @ List.map_filter entry_growth entries)"
  using assms
proof (induction entries arbitrary: acc)
  case Nil
  then show ?case by (simp add: map_filter_simps)
next
  case (Cons e entries)
  obtain ind yd where e: "e = (ind, yd)" by (cases e)
  let ?ys = "sort (map fst yd)"
  let ?rates = "growth_rates_of (\<lambda>y. sample_mean (dd_get yd y)) (zip ?ys (tl ?ys))"
  from Cons.prems e have dist: "distinct (map fst entries)" and new: "ind \<notin> fst ` set entries"
    and fresh: "ind \<notin> fst ` set acc" and disj: "fst ` set entries \<inter> fst ` set acc = {}"
    and ne: "nonempty_groups yd" and rest: "\<forall>e\<in>set entries. nonempty_groups (snd e)"
    by auto
  have eg: "entry_growth (ind, yd)
      = (if ?rates = [] then None else Some (ind, sample_mean ?rates))"
    by (simp add: entry_growth_def Let_def)
  show ?case
  proof (cases "length ?ys < 2")
    case True
    then have "?rates = []" by (simp add: zip_tl_short growth_rates_of_Nil)
    with True show ?thesis
      by (simp add: e eg map_filter_simps Cons.IH [OF dist disj rest])
  next
    case False
    from ne have groups: "\<forall>y\<in>set ?ys. dd_get yd y \<noteq> []"
      by (simp add: nonempty_groups_def)
    have idx: "\<forall>i\<in>set [1..<length ?ys]. 1 \<le> i \<and> i < length ?ys"
      by simp
    have loop: "growth_rates_loop yd ?ys [1..<length ?ys] [] = Inr ?rates"
      unfolding growth_rates_loop_eq [OF idx groups] consecutive_nth append_Nil ..
    show ?thesis
    proof (cases "?rates = []")
      case True
      with False loop show ?thesis
        by (simp add: e eg map_filter_simps Cons.IH [OF dist disj rest] Let_def)
    next
      case nonempty: False
      let ?acc = "acc @ [(ind, sample_mean ?rates)]"
      from new disj have disj': "fst ` set entries \<inter> fst ` set ?acc = {}" by auto
      from False loop nonempty show ?thesis
        by (simp add: e eg map_filter_simps Cons.IH [OF dist disj' rest] Let_def
            mean_nonempty dict_set_new [OF fresh])
    qed
  qed
qed

lemma sort_distinct_eq:
  fixes xs zs :: "int list"
  assumes "distinct xs" and "set xs = set zs"
  shows "sort xs = sort (remdups zs)"
proof -
  have "sort xs = sort (remdups xs)" using assms(1) by (simp add: distinct_remdups_id)
  also have "\<dots> = sorted_list_of_set (set xs)" by (simp add: sorted_list_of_set_sort_remdups)
  also have "\<dots> = sorted_list_of_set (set zs)" using assms(2) by simp
  also have "\<dots> = sort (remdups zs)" by (simp add: sorted_list_of_set_sort_remdups)
  finally show ?thesis .
qed

lemma growth_rates_nonempty_years:
  "yoy_growth_rates recs ind \<noteq> [] \<Longrightarrow> 2 \<le> length (industry_years recs ind)"
  unfolding yoy_growth_rates_def Let_def
  using zip_tl_short [of "industry_years recs ind"]
  by (cases "length (industry_years recs ind) < 2") (simp_all add: growth_rates_of_Nil)

lemma avg_growth_eq:
  "avg_growth recs ind =
     (if yoy_growth_rates recs ind = [] then None
      else Some (sample_mean (yoy_growth_rates recs ind)))"
  using growth_rates_nonempty_years [of recs ind] by (auto simp: avg_growth_def)

text \<open>The dictionary built by the growth generator, against the filtered records.\<close>

lemma growth_groups:
  fixes all_records :: "GenAIAdoptionRecord list"
    and years :: "int list option" and industries :: "string list option"
  defines "recs \<equiv> filter (admissible years industries) all_records"
  defines "iyd \<equiv> industry_year_data_loop all_records years industries []"
  shows "distinct (map fst iyd)"
    and "fst ` set iyd = (\<lambda>r. industry_value (industry r)) ` set recs"
    and "\<forall>e\<in>set iyd. nonempty_groups (snd e)"
    and "e \<in> set iyd \<Longrightarrow> entry_growth e = map_option (Pair (fst e)) (avg_growth recs (fst e))"
    and "length (dd_get iyd ind) = length (industry_years recs ind)"
proof -
  show dist: "distinct (map fst iyd)"
    unfolding iyd_def by (rule industry_year_data_loop_distinct) simp
  show "fst ` set iyd = (\<lambda>r. industry_value (industry r)) ` set recs"
    unfolding iyd_def recs_def industry_year_data_loop_keys by simp
  have wf: "wf_inner iyd"
    unfolding iyd_def by (rule industry_year_data_loop_wf) (rule wf_inner_empty)
  have entry: "snd e = dd_get iyd (fst e)" if "e \<in> set iyd" for e
    using dd_get_entry [OF dist, of "fst e" "snd e"] that by simp
  show "\<forall>e\<in>set iyd. nonempty_groups (snd e)"
    using wf entry by (simp add: wf_inner_def)
  have rates: "dd_get (dd_get iyd k) y
      = map adoption_rate (filter (\<lambda>r. year r = y) (industry_records recs k))" for k y
    unfolding iyd_def recs_def industry_year_data_loop_rates by (simp add: dd_get_def)
  have years: "fst ` set (dd_get iyd k) = year ` set (industry_records recs k)" for k
    unfolding iyd_def recs_def industry_year_data_loop_years by (simp add: dd_get_def)
  have sorted_years: "sort (map fst (dd_get iyd k)) = industry_years recs k" for k
    unfolding industry_years_def
    using wf years [of k] by (intro sort_distinct_eq) (simp_all add: wf_inner_def)
  have "length (sort (map fst (dd_get iyd ind))) = length (industry_years recs ind)"
    by (simp only: sorted_years)
  then show "length (dd_get iyd ind) = length (industry_years recs ind)"
    by simp
  show "entry_growth e = map_option (Pair (fst e)) (avg_growth recs (fst e))" if "e \<in> set iyd"
  proof -
    have m: "(\<lambda>y. sample_mean (dd_get (snd e) y)) = year_mean recs (fst e)"
      by (simp add: entry [OF that] rates year_mean_def fun_eq_iff)
    show ?thesis
      unfolding entry_growth_def m avg_growth_eq yoy_growth_rates_def
      by (simp add: entry [OF that] sorted_years Let_def)
  qed
qed

lemma set_map_filter_iff: "y \<in> set (List.map_filter f xs) \<longleftrightarrow> (\<exists>x\<in>set xs. f x = Some y)"
  by (induction xs) (auto split: option.splits)

lemma map_fst_map_filter:
  assumes "\<And>e p. f e = Some p \<Longrightarrow> fst p = fst e"
  shows "map fst (List.map_filter f xs) = map fst (filter (\<lambda>e. f e \<noteq> None) xs)"
  using assms by (induction xs) (auto split: option.splits)

lemma avg_growth_no_records: "avg_growth [] s = None"
  by (simp add: avg_growth_eq yoy_growth_rates_def industry_years_def industry_records_def
      growth_rates_of_Nil)

lemma avg_growth_industry:
  assumes "avg_growth recs s = Some g"
  shows "s \<in> (\<lambda>r. industry_value (industry r)) ` set recs"
proof -
  from assms have "yoy_growth_rates recs s \<noteq> []"
    by (auto simp: avg_growth_eq split: if_splits)
  then have "2 \<le> length (industry_years recs s)" by (rule growth_rates_nonempty_years)
  then have "industry_years recs s \<noteq> []" by auto
  then have "industry_records recs s \<noteq> []" by (auto simp: industry_years_def)
  then obtain r where "r \<in> set (industry_records recs s)" by (cases "industry_records recs s") auto
  then show ?thesis by (auto simp: industry_records_def)
qed

text \<open>
  What the growth generator returns: nothing when no average growth exceeds \<open>0.1\<close>, and
  otherwise one insight for an industry of maximal average growth.
\<close>

lemma generate_growth_insights_cases:
  fixes all_records :: "GenAIAdoptionRecord list"
    and years :: "int list option" and industries :: "string list option"
  defines "recs \<equiv> filter (admissible years industries) all_records"
  shows "(generate_growth_insights lib tick all_records years industries = Inr ([], tick)
          \<and> (\<forall>s g. avg_growth recs s = Some g \<longrightarrow> g \<le> 1 / 10))
       \<or> (\<exists>ins i g.
            generate_growth_insights lib tick all_records years industries
              = Inr ([ins], tick + 2)
            \<and> avg_growth recs (industry_value i) = Some g \<and> 1 / 10 < g
            \<and> (\<forall>s g'. avg_growth recs s = Some g' \<longrightarrow> g' \<le> g)
            \<and> category ins = ''growth_trends''
            \<and> confidence ins
                = min (9 / 10) (real (length (industry_years recs (industry_value i))) / 5)
            \<and> data_slice_url ins
                = ''/api/data/slice?industry='' @ industry_value i @ ''&metric=growth''
            \<and> statistical_data ins
                = [(''growth_rate'', PyFloat g),
                   (''sample_size'', PyInt (int (length (industry_years recs (industry_value i))))),
                   (''years_analyzed'',
                    PyInt (int (length (industry_years recs (industry_value i)))))])"
proof (cases "all_records = []")
  case True
  then show ?thesis
    by (simp add: generate_growth_insights_def recs_def avg_growth_no_records)
next
  case False
  define iyd where "iyd = industry_year_data_loop all_records years industries []"
  define igr where "igr = List.map_filter entry_growth iyd"
  note g = growth_groups [where all_records = all_records and years = years
      and industries = industries, folded recs_def iyd_def]
  have loop: "industry_growth_rates_loop iyd [] = Inr igr"
    unfolding igr_def
    using industry_growth_rates_loop_eq [OF g(1) _ g(3), of "[]"] by simp
  have mem: "(s, v) \<in> set igr \<longleftrightarrow> avg_growth recs s = Some v" for s v
  proof
    assume "(s, v) \<in> set igr"
    then obtain e where e: "e \<in> set iyd" and eg: "entry_growth e = Some (s, v)"
      unfolding igr_def set_map_filter_iff by blast
    from eg have "map_option (Pair (fst e)) (avg_growth recs (fst e)) = Some (s, v)"
      unfolding g(4) [OF e] .
    then show "avg_growth recs s = Some v"
      by (cases "avg_growth recs (fst e)") auto
  next
    assume a: "avg_growth recs s = Some v"
    from avg_growth_industry [OF a] g(2) have "s \<in> fst ` set iyd" by simp
    then obtain e where e: "e \<in> set iyd" and s: "fst e = s"
      by blast
    from g(4) [OF e] a s have "entry_growth e = Some (s, v)" by simp
    with e show "(s, v) \<in> set igr"
      unfolding igr_def set_map_filter_iff by blast
  qed
  have "map fst igr = map fst (filter (\<lambda>e. entry_growth e \<noteq> None) iyd)"
    unfolding igr_def
    by (rule map_fst_map_filter) (auto simp: entry_growth_def Let_def split: if_splits)
  with g(1) have dist: "distinct (map fst igr)"
    by (simp add: distinct_map_filter)
  show ?thesis
  proof (cases "igr = []")
    case True
    with mem have "\<forall>s g. avg_growth recs s \<noteq> Some g" by auto
    moreover have "generate_growth_insights lib tick all_records years industries = Inr ([], tick)"
      using False True
      by (simp add: generate_growth_insights_def iyd_def [symmetric] loop Let_def)
    ultimately show ?thesis by simp
  next
    case nonempty: False
    from py_max_key_eq [OF nonempty] obtain k v
      where max: "py_max_key igr = Inr k" and kv: "(k, v) \<in> set igr"
        and greatest: "\<forall>p\<in>set igr. snd p \<le> v"
      by blast
    have lookup: "dict_lookup igr k = Inr v"
      using dist kv by (rule dict_lookup_entry)
    from kv mem have avg: "avg_growth recs k = Some v" by simp
    have top: "\<forall>s g'. avg_growth recs s = Some g' \<longrightarrow> g' \<le> v"
      using greatest mem by force
    from avg_growth_industry [OF avg] obtain i where i: "k = industry_value i" by auto
    have url: "generate_data_slice_url [(''industry'', k), (''metric'', ''growth'')]
        = Inr (''/api/data/slice?industry='' @ k @ ''&metric=growth'')"
      using data_slice_url_industry_metric [of k "''growth''"] i industry_value_nonempty
      by simp
    show ?thesis
    proof (cases "1 / 10 < v")
      case True
      define ins where "ins =
        \<lparr>insight_id = ''growth_leader_'' @ strftime lib (utcnow lib tick),
          title = ''Fastest Growing Industry Identified'',
          short_text = k @ '' shows ''
            @ format_percent1 lib v @ '' average growth rate'',
          details = k
            @ '' demonstrates the highest growth trajectory with an average ''
            @ ''year-over-year growth rate of '' @ format_percent1 lib v
            @ ''. This accelerated adoption ''
            @ ''indicates strong market momentum and suggests significant investment opportunities ''
            @ ''in GenAI technologies within this sector.'',
          confidence = min (9 / 10) (real (length (industry_years recs k)) / 5),
          data_slice_url = ''/api/data/slice?industry='' @ k @ ''&metric=growth'',
          computed_at = isoformat lib (utcnow lib (tick + 1)),
          category = ''growth_trends'',
          statistical_data =
            [(''growth_rate'', PyFloat v),
             (''sample_size'', PyInt (int (length (industry_years recs k)))),
             (''years_analyzed'', PyInt (int (length (industry_years recs k))))]\<rparr>"
      have run: "generate_growth_insights lib tick all_records years industries
          = Inr ([ins], tick + 2)"
        unfolding generate_growth_insights_def ins_def
        using False nonempty True
        by (simp add: iyd_def [symmetric] loop max lookup url g(5) Let_def del: append.simps)
      have "category ins = ''growth_trends''"
        and "confidence ins
            = min (9 / 10) (real (length (industry_years recs (industry_value i))) / 5)"
        and "data_slice_url ins
            = ''/api/data/slice?industry='' @ industry_value i @ ''&metric=growth''"
        and "statistical_data ins
            = [(''growth_rate'', PyFloat v),
               (''sample_size'', PyInt (int (length (industry_years recs (industry_value i))))),
               (''years_analyzed'',
                PyInt (int (length (industry_years recs (industry_value i)))))]"
        by (simp_all add: ins_def i)
      with run avg True top show ?thesis
        unfolding i by blast
    next
      case low: False
      have "generate_growth_insights lib tick all_records years industries = Inr ([], tick)"
        using False nonempty low
        by (simp add: generate_growth_insights_def iyd_def [symmetric] loop max lookup Let_def)
      moreover from top low have "\<forall>s g. avg_growth recs s = Some g \<longrightarrow> g \<le> 1 / 10"
        by force
      ultimately show ?thesis by blast
    qed
  qed
qed

lemma growth_rates_loop_no_zero_division:
  "growth_rates_loop yd ys idx acc \<noteq> Inl ZeroDivisionError"
proof (induction idx arbitrary: acc)
  case Nil
  then show ?case by simp
next
  case (Cons i rest)
  show ?case
    using Cons.IH
    by (auto simp: bind_err_def py_index_def mean_def py_truediv_def split: sum.splits)
qed

lemma growth_rates_loop_skip:
  assumes "py_index ys (i - 1) = Inr p" and "py_index ys i = Inr c"
    and "mean (dd_get yd p) = Inr 0" and "mean (dd_get yd c) = Inr m"
  shows "growth_rates_loop yd ys (i # rest) acc = growth_rates_loop yd ys rest acc"
  using assms by simp

lemma growth_rates_of_all_zero:
  "\<forall>pc\<in>set pairs. m (fst pc) = 0 \<Longrightarrow> growth_rates_of m pairs = []"
  by (auto simp: growth_rates_of_def filter_empty_conv)

lemma genai_simps:
  "industry (genai i y a u v) = i"
  "year (genai i y a u v) = y"
  "adoption_rate (genai i y a u v) = a"
  "use_cases_count (genai i y a u v) = u"
  "investment_millions (genai i y a u v) = v"
  by (simp_all add: genai_def)

lemma industry_value_inject: "industry_value i = industry_value j \<Longrightarrow> i = j"
  by (cases i; cases j) simp_all



text \<open>
  Claim C10. The growth loop never raises \<^verbatim>\<open>ZeroDivisionError\<close>, whatever its arguments:
  an iteration whose previous-year mean is 0 leaves the list of growth rates as it was.
  The generator always returns. An industry all of whose consecutive-year pairs have a
  previous-year mean of 0 has no average growth, and no emitted insight is about it.
\<close>

theorem growth_never_divides_by_zero:
  "growth_rates_loop yd ys idx acc \<noteq> Inl ZeroDivisionError
   \<and> (py_index ys (n - 1) = Inr p \<and> py_index ys n = Inr c
        \<and> mean (dd_get yd p) = Inr 0 \<and> mean (dd_get yd c) = Inr m
        \<longrightarrow> growth_rates_loop yd ys (n # idx) acc = growth_rates_loop yd ys idx acc)
   \<and> (\<exists>out. generate_growth_insights lib tick all_records years industries = Inr out)
   \<and> ((\<forall>pc\<in>set (zip (industry_years (growth_scope all_records years industries) (industry_value i))
                     (tl (industry_years (growth_scope all_records years industries)
                            (industry_value i)))).
           year_mean (growth_scope all_records years industries) (industry_value i) (fst pc) = 0)
        \<longrightarrow> avg_growth (growth_scope all_records years industries) (industry_value i) = None
            \<and> (\<forall>ins k. generate_growth_insights lib tick all_records years industries
                          = Inr ([ins], k)
                 \<longrightarrow> data_slice_url ins
                       \<noteq> ''/api/data/slice?industry='' @ industry_value i @ ''&metric=growth''))"
proof (intro conjI impI)
  show "growth_rates_loop yd ys idx acc \<noteq> Inl ZeroDivisionError"
    by (rule growth_rates_loop_no_zero_division)
next
  assume "py_index ys (n - 1) = Inr p \<and> py_index ys n = Inr c
      \<and> mean (dd_get yd p) = Inr 0 \<and> mean (dd_get yd c) = Inr m"
  then show "growth_rates_loop yd ys (n # idx) acc = growth_rates_loop yd ys idx acc"
    using growth_rates_loop_skip [of ys n p c yd m idx acc] by blast
next
  show "\<exists>out. generate_growth_insights lib tick all_records years industries = Inr out"
    using generate_growth_insights_cases [of lib tick all_records years industries] by blast
next
  let ?recs = "growth_scope all_records years industries"
  assume zero: "\<forall>pc\<in>set (zip (industry_years ?recs (industry_value i))
                     (tl (industry_years ?recs (industry_value i)))).
      year_mean ?recs (industry_value i) (fst pc) = 0"
  then have "yoy_growth_rates ?recs (industry_value i) = []"
    unfolding yoy_growth_rates_def Let_def by (rule growth_rates_of_all_zero)
  then show none: "avg_growth ?recs (industry_value i) = None"
    by (simp add: avg_growth_eq)
  show "\<forall>ins k. generate_growth_insights lib tick all_records years industries = Inr ([ins], k)
      \<longrightarrow> data_slice_url ins
            \<noteq> ''/api/data/slice?industry='' @ industry_value i @ ''&metric=growth''"
  proof (intro allI impI)
    fix ins k
    assume run: "generate_growth_insights lib tick all_records years industries = Inr ([ins], k)"
    with generate_growth_insights_cases [of lib tick all_records years industries]
    obtain j g where "avg_growth ?recs (industry_value j) = Some g"
      and url: "data_slice_url ins
          = ''/api/data/slice?industry='' @ industry_value j @ ''&metric=growth''"
      unfolding growth_scope_def [symmetric] by auto
    with none have "industry_value j \<noteq> industry_value i" by auto
    then show "data_slice_url ins
        \<noteq> ''/api/data/slice?industry='' @ industry_value i @ ''&metric=growth''"
      unfolding url by simp
  qed
qed

text \<open>
  Healthcare with the mean 0 in 2022 contributes nothing; the insight is about Finance.
\<close>

theorem growth_never_divides_by_zero_witness:
  "\<forall>lib tick. \<exists>ins.
     generate_growth_insights lib tick
       [genai HEALTHCARE 2022 0 10 50, genai HEALTHCARE 2023 (4 / 5) 15 80,
        genai FINANCE 2022 (1 / 2) 10 50, genai FINANCE 2023 (4 / 5) 15 80] None None
       = Inr ([ins], tick + 2)
     \<and> data_slice_url ins \<noteq> ''/api/data/slice?industry=Healthcare&metric=growth''
     \<and> growth_rates_loop [(2022, [0]), (2023, [4 / 5])] [2022, 2023] [1] []
         = growth_rates_loop [(2022, [0]), (2023, [4 / 5])] [2022, 2023] [] []"
proof (intro allI)
  fix lib tick
  let ?rs = "[genai HEALTHCARE 2022 0 10 50, genai HEALTHCARE 2023 (4 / 5) 15 80,
        genai FINANCE 2022 (1 / 2) 10 50, genai FINANCE 2023 (4 / 5) 15 80]"
  let ?run = "generate_growth_insights lib tick ?rs None None"
  let ?yd = "[(2022 :: int, [0 :: real]), (2023, [4 / 5])]"
  have scope: "growth_scope ?rs None None = ?rs"
    by (simp add: growth_scope_def admissible_def)
  have years: "industry_years ?rs ''Healthcare'' = [2022, 2023]"
    by (simp add: industry_years_def industry_records_def genai_simps)
  have ym: "year_mean ?rs ''Healthcare'' 2022 = 0"
    by (simp add: year_mean_def industry_records_def genai_simps sample_mean_def)
  have zero: "\<forall>pc\<in>set (zip (industry_years ?rs (industry_value HEALTHCARE))
                     (tl (industry_years ?rs (industry_value HEALTHCARE)))).
      year_mean ?rs (industry_value HEALTHCARE) (fst pc) = 0"
    by (simp add: years ym)
  note t = growth_never_divides_by_zero [of ?yd "[2022, 2023]" "[]" "[]" 1 2022 2023 "4 / 5"
      lib tick ?rs None None HEALTHCARE, unfolded scope]
  have pre: "py_index [2022, 2023 :: int] (1 - 1) = Inr 2022
      \<and> py_index [2022, 2023 :: int] 1 = Inr 2023
      \<and> mean (dd_get ?yd 2022) = Inr 0 \<and> mean (dd_get ?yd 2023) = Inr (4 / 5)"
    by (simp add: py_index_def mean_def dd_get_def)
  with t have skip: "growth_rates_loop ?yd [2022, 2023] [1] [] = growth_rates_loop ?yd [2022, 2023] [] []"
    by blast
  from t zero have never: "\<forall>ins k. ?run = Inr ([ins], k)
      \<longrightarrow> data_slice_url ins
            \<noteq> ''/api/data/slice?industry='' @ industry_value HEALTHCARE @ ''&metric=growth''"
    by blast
  have "\<exists>ins. ?run = Inr ([ins], tick + 2)"
    by (simp add: generate_growth_insights_def genai_def py_truediv_def dd_append_def dd_get_def
      dd2_append_def truthy_def py_index_def
      mean_def py_max_key_def dict_lookup_def generate_data_slice_url_def dict_get_truthy_def Let_def)
  then obtain ins where run: "?run = Inr ([ins], tick + 2)" by blast
  with never have "data_slice_url ins \<noteq> ''/api/data/slice?industry=Healthcare&metric=growth''"
    by force
  with run skip
  show "\<exists>ins. ?run = Inr ([ins], tick + 2)
      \<and> data_slice_url ins \<noteq> ''/api/data/slice?industry=Healthcare&metric=growth''
      \<and> growth_rates_loop ?yd [2022, 2023] [1] [] = growth_rates_loop ?yd [2022, 2023] [] []"
    by blast
qed


end
